theory Spec2Isabelle
  imports Main
begin

section \<open>Bulk Image Formatter: center-crop geometry\<close>

text \<open>
  The notebook \<^verbatim>\<open>001_Bulk_Image_Formatter\<close> defines two functions,
  \<^verbatim>\<open>process_image\<close> and \<^verbatim>\<open>batch_process_images\<close>. This theory embeds them
  and proves the properties claimed of them.

  Python integers are unbounded, so widths, heights and box coordinates are \<^typ>\<open>int\<close>;
  Python's floor division \<^verbatim>\<open>//\<close> is \<open>div\<close> on \<^typ>\<open>int\<close> (both round towards minus
  infinity).
\<close>

type_synonym box = "int \<times> int \<times> int \<times> int"

text \<open>
  Lines 78--89 of the notebook, the body of the \<^verbatim>\<open>if width > height\<close> statement
  of \<^verbatim>\<open>process_image\<close>; the result is the tuple handed to \<^verbatim>\<open>img.crop\<close>.
  The source's variable \<^verbatim>\<open>top\<close> is written \<open>top'\<close>, since \<open>top\<close> is a constant of HOL.
\<close>

definition crop_box :: "int \<Rightarrow> int \<Rightarrow> box" where
  "crop_box width height =
     (if width > height then
        (let left = (width - height) div 2;
             top' = 0;
             right = left + height;
             bottom = height
         in (left, top', right, bottom))
      else
        (let left = 0;
             top' = (height - width) div 2;
             right = width;
             bottom = top' + width
         in (left, top', right, bottom)))"

section \<open>Strings and paths\<close>

text \<open>
  A Python \<^verbatim>\<open>str\<close> is modelled as a \<^typ>\<open>string\<close>, the list of the bytes of its UTF-8
  encoding. Every separator and suffix the program compares against is ASCII, and an
  ASCII byte never occurs inside the encoding of another code point, so suffix tests and
  splits at \<^verbatim>\<open>/\<close> and \<^verbatim>\<open>.\<close> agree on bytes and on code points.
\<close>

type_synonym path = string

text \<open>\<^verbatim>\<open>s.endswith(suffix)\<close> for one suffix, and for a tuple of suffixes.\<close>

definition endswith :: "string \<Rightarrow> string \<Rightarrow> bool" where
  "endswith s suffix =
     (length suffix \<le> length s \<and> drop (length s - length suffix) s = suffix)"

definition endswith_any :: "string \<Rightarrow> string list \<Rightarrow> bool" where
  "endswith_any s suffixes = list_ex (endswith s) suffixes"

text \<open>\<^verbatim>\<open>s.rfind(c)\<close>: the index of the last occurrence of \<open>c\<close>, or \<open>-1\<close>.\<close>

definition rfind :: "string \<Rightarrow> char \<Rightarrow> int" where
  "rfind s c =
     (if c \<in> set s
      then int (length s) - 1 - int (length (takeWhile (\<lambda>x. x \<noteq> c) (rev s)))
      else - 1)"

text \<open>
  The functions of \<^verbatim>\<open>os.path\<close> that \<^verbatim>\<open>process_image\<close> and \<^verbatim>\<open>batch_process_images\<close>
  call are not part of the notebook. They are modelled after CPython's \<^verbatim>\<open>posixpath\<close>
  and \<^verbatim>\<open>genericpath\<close> (separator \<^verbatim>\<open>/\<close>, extension separator \<^verbatim>\<open>.\<close>, no alternative
  separator):
  \<^verbatim>\<open>
  def basename(p):
      i = p.rfind('/') + 1
      return p[i:]

  def _splitext(p, sep, altsep, extsep):
      sepIndex = p.rfind(sep)
      dotIndex = p.rfind(extsep)
      if dotIndex > sepIndex:
          # skip all leading dots
          filenameIndex = sepIndex + 1
          while filenameIndex < dotIndex:
              if p[filenameIndex:filenameIndex+1] != extsep:
                  return p[:dotIndex], p[dotIndex:]
              filenameIndex += 1
      return p, p[:0]

  def join(a, b):
      if b.startswith('/'):   path = b
      elif not a or a.endswith('/'):   path = a + b
      else:   path = a + '/' + b
      return path
  \<close>
\<close>

definition basename :: "path \<Rightarrow> string" where
  "basename p = (let i = rfind p (CHR ''/'') + 1 in drop (nat i) p)"

text \<open>
  The \<^verbatim>\<open>while\<close> loop of \<^verbatim>\<open>_splitext\<close>: \<open>True\<close> when it leaves through the
  \<^verbatim>\<open>return\<close> in its body (a character other than a dot stands before the last dot),
  \<open>False\<close> when it runs to its end.
\<close>

function skip_leading_dots :: "string \<Rightarrow> nat \<Rightarrow> nat \<Rightarrow> bool" where
  "skip_leading_dots p filenameIndex dotIndex =
     (if filenameIndex < dotIndex then
        (if take 1 (drop filenameIndex p) \<noteq> ''.'' then True
         else skip_leading_dots p (filenameIndex + 1) dotIndex)
      else False)"
  by pat_completeness auto
termination
  by (relation "measure (\<lambda>(p, filenameIndex, dotIndex). dotIndex - filenameIndex)") auto

definition splitext :: "path \<Rightarrow> string \<times> string" where
  "splitext p =
     (let sepIndex = rfind p (CHR ''/'');
          dotIndex = rfind p (CHR ''.'')
      in if dotIndex > sepIndex \<and> skip_leading_dots p (nat (sepIndex + 1)) (nat dotIndex)
         then (take (nat dotIndex) p, drop (nat dotIndex) p)
         else (p, []))"

definition join :: "path \<Rightarrow> path \<Rightarrow> path" where
  "join a b =
     (if take 1 b = ''/'' then b
      else if a = [] \<or> endswith a ''/'' then a @ b
      else a @ ''/'' @ b)"

text \<open>\<^verbatim>\<open>str(n)\<close> for the integers the program prints.\<close>

function str_nat :: "nat \<Rightarrow> string" where
  "str_nat n =
     (if n < 10 then [''0123456789'' ! n]
      else str_nat (n div 10) @ [''0123456789'' ! (n mod 10)])"
  by pat_completeness auto
termination
  by (relation "measure id") auto

definition str_int :: "int \<Rightarrow> string" where
  "str_int i = (if i < 0 then ''-'' @ str_nat (nat (- i)) else str_nat (nat i))"

section \<open>Exceptions, output and the external capabilities\<close>

text \<open>
  A raised Python exception (an instance of \<^verbatim>\<open>Exception\<close>) with the text that
  \<^verbatim>\<open>str(e)\<close> gives. A call either returns a value or raises.
\<close>

datatype exn = Exn (str_exn: string)

datatype 'a outcome = Returned 'a | Raised exn

text \<open>
  The state a run threads through its calls: the world outside the program (file
  system, of a type \<open>'w\<close> the program never inspects) and the lines printed so far.
\<close>

record 'w state =
  world :: 'w
  stdout :: "string list"

definition print :: "string \<Rightarrow> 'w state \<Rightarrow> 'w state" where
  "print line st = st\<lparr>stdout := stdout st @ [line]\<rparr>"

text \<open>
  The file system and the image library are outside the notebook. The program is
  modelled over any implementation of the calls it makes:
  \<^item> \<^verbatim>\<open>os.path.exists\<close>, which never raises;
  \<^item> \<^verbatim>\<open>os.makedirs\<close>, which changes the world and may raise (\<open>Some e\<close>);
  \<^item> \<^verbatim>\<open>os.listdir\<close>, which returns the entry names in the platform's order or raises;
  \<^item> \<^verbatim>\<open>Image.open\<close>, \<^verbatim>\<open>img.size\<close>, \<^verbatim>\<open>img.crop\<close>, \<^verbatim>\<open>img.resize\<close> (the filter is
    always \<^verbatim>\<open>Image.LANCZOS\<close>) and \<^verbatim>\<open>img.save\<close> (the format is always \<^verbatim>\<open>"PNG"\<close>), each
    of which may raise; \<^verbatim>\<open>img.save\<close> changes the world whether it raises or not.
\<close>

record ('w, 'img) capabilities =
  path_exists :: "'w \<Rightarrow> path \<Rightarrow> bool"
  makedirs :: "'w \<Rightarrow> path \<Rightarrow> exn option \<times> 'w"
  listdir :: "'w \<Rightarrow> path \<Rightarrow> exn + string list"
  image_open :: "'w \<Rightarrow> path \<Rightarrow> exn + 'img"
  image_size :: "'img \<Rightarrow> int \<times> int"
  image_crop :: "'img \<Rightarrow> box \<Rightarrow> exn + 'img"
  image_resize :: "'img \<Rightarrow> int \<times> int \<Rightarrow> exn + 'img"
  image_save :: "'w \<Rightarrow> 'img \<Rightarrow> path \<Rightarrow> exn option \<times> 'w"

section \<open>process\_image\<close>

text \<open>
  Lines 97--101: the name and the path of the output file.
  \<^verbatim>\<open>
  filename = os.path.basename(input_path)
  name_without_ext = os.path.splitext(filename)[0]
  output_filename = f"{name_without_ext}.png"
  output_path = os.path.join(output_folder, output_filename)
  \<close>
\<close>

definition output_filename :: "path \<Rightarrow> string" where
  "output_filename input_path =
     (let filename = basename input_path;
          name_without_ext = fst (splitext filename)
      in name_without_ext @ ''.png'')"

definition output_path :: "path \<Rightarrow> path \<Rightarrow> path" where
  "output_path input_path output_folder = join output_folder (output_filename input_path)"

text \<open>The two messages of \<^verbatim>\<open>process_image\<close>; the arrow is U+2192 in UTF-8.\<close>

definition processed_message :: "path \<Rightarrow> string" where
  "processed_message input_path =
     ''Processed: '' @ basename input_path @ '' '' @ [CHR 0xE2, CHR 0x86, CHR 0x92] @ '' '' @
     output_filename input_path"

definition error_message :: "path \<Rightarrow> exn \<Rightarrow> string" where
  "error_message input_path e = ''Error processing '' @ input_path @ '': '' @ str_exn e"

text \<open>
  The body of the \<^verbatim>\<open>try\<close> statement (lines 71--107). Each call into the image library
  that raises ends the body with that exception.
\<close>

definition try_body ::
  "('w, 'img) capabilities \<Rightarrow> path \<Rightarrow> path \<Rightarrow> int \<times> int \<Rightarrow> 'w state \<Rightarrow> bool outcome \<times> 'w state"
where
  "try_body os input_path output_folder size' st =
     (case image_open os (world st) input_path of
        Inl e \<Rightarrow> (Raised e, st)
      | Inr img \<Rightarrow>
          (case image_size os img of (width, height) \<Rightarrow>
             (case image_crop os img (crop_box width height) of
                Inl e \<Rightarrow> (Raised e, st)
              | Inr img_cropped \<Rightarrow>
                  (case image_resize os img_cropped size' of
                     Inl e \<Rightarrow> (Raised e, st)
                   | Inr img_resized \<Rightarrow>
                       (case image_save os (world st) img_resized
                               (output_path input_path output_folder) of
                          (Some e, w') \<Rightarrow> (Raised e, st\<lparr>world := w'\<rparr>)
                        | (None, w') \<Rightarrow>
                            (Returned True,
                             print (processed_message input_path) (st\<lparr>world := w'\<rparr>)))))))"

text \<open>
  \<^verbatim>\<open>process_image\<close>: the \<^verbatim>\<open>try\<close> body under its handler
  \<^verbatim>\<open>except Exception as e: print(f"Error processing {input_path}: {e}"); return False\<close>.
\<close>

definition process_image ::
  "('w, 'img) capabilities \<Rightarrow> path \<Rightarrow> path \<Rightarrow> int \<times> int \<Rightarrow> 'w state \<Rightarrow> bool outcome \<times> 'w state"
where
  "process_image os input_path output_folder size' st =
     (case try_body os input_path output_folder size' st of
        (Raised e, st') \<Rightarrow> (Returned False, print (error_message input_path e) st')
      | (Returned ok, st') \<Rightarrow> (Returned ok, st'))"

section \<open>batch\_process\_images\<close>

definition jpg_extensions :: "string list" where
  "jpg_extensions = [''.jpg'', ''.jpeg'', ''.JPG'', ''.JPEG'']"

text \<open>Line 128: \<^verbatim>\<open>[f for f in os.listdir(input_folder) if f.endswith(jpg_extensions)]\<close>.\<close>

definition jpg_files :: "string list \<Rightarrow> string list" where
  "jpg_files entries = [f \<leftarrow> entries. endswith_any f jpg_extensions]"

text \<open>
  Lines 122--124: \<^verbatim>\<open>if not os.path.exists(output_folder): os.makedirs(output_folder);
  print(f"Created output directory: {output_folder}")\<close>.
\<close>

definition ensure_output_folder ::
  "('w, 'img) capabilities \<Rightarrow> path \<Rightarrow> 'w state \<Rightarrow> unit outcome \<times> 'w state"
where
  "ensure_output_folder os output_folder st =
     (if \<not> path_exists os (world st) output_folder then
        (case makedirs os (world st) output_folder of
           (Some e, w') \<Rightarrow> (Raised e, st\<lparr>world := w'\<rparr>)
         | (None, w') \<Rightarrow>
             (Returned (),
              print (''Created output directory: '' @ output_folder) (st\<lparr>world := w'\<rparr>)))
      else (Returned (), st))"

text \<open>
  Lines 137--141: the \<^verbatim>\<open>for\<close> loop with its counter \<^verbatim>\<open>successful\<close>. An exception
  out of \<^verbatim>\<open>process_image\<close> would end the loop.
\<close>

fun process_each ::
  "('w, 'img) capabilities \<Rightarrow> path \<Rightarrow> path \<Rightarrow> int \<times> int \<Rightarrow> string list \<Rightarrow> int \<Rightarrow> 'w state
   \<Rightarrow> int outcome \<times> 'w state"
where
  "process_each os input_folder output_folder size' [] successful st = (Returned successful, st)"
| "process_each os input_folder output_folder size' (jpg_file # rest) successful st =
     (let input_path = join input_folder jpg_file in
      case process_image os input_path output_folder size' st of
        (Raised e, st') \<Rightarrow> (Raised e, st')
      | (Returned ok, st') \<Rightarrow>
          process_each os input_folder output_folder size' rest
            (if ok then successful + 1 else successful) st')"

definition summary_message :: "int \<Rightarrow> nat \<Rightarrow> string" where
  "summary_message successful n_files =
     ''Processing complete. '' @ str_int successful @ '' of '' @ str_nat n_files @
     '' images converted successfully.''"

definition batch_process_images ::
  "('w, 'img) capabilities \<Rightarrow> path \<Rightarrow> path \<Rightarrow> int \<times> int \<Rightarrow> 'w state \<Rightarrow> unit outcome \<times> 'w state"
where
  "batch_process_images os input_folder output_folder size' st =
     (case ensure_output_folder os output_folder st of
        (Raised e, st1) \<Rightarrow> (Raised e, st1)
      | (Returned _, st1) \<Rightarrow>
          (case listdir os (world st1) input_folder of
             Inl e \<Rightarrow> (Raised e, st1)
           | Inr entries \<Rightarrow>
               (let files = jpg_files entries in
                if files = [] then
                  (Returned (), print (''No JPG files found in '' @ input_folder) st1)
                else
                  (let st2 = print (''Found '' @ str_nat (length files) @
                                    '' JPG files to process...'') st1
                   in case process_each os input_folder output_folder size' files 0 st2 of
                        (Raised e, st3) \<Rightarrow> (Raised e, st3)
                      | (Returned successful, st3) \<Rightarrow>
                          (Returned (),
                           print (summary_message successful (length files)) st3)))))"

text \<open>
  The calls of \<^verbatim>\<open>process_image\<close> that the loop makes on a list of files, in order: the
  path of each call and the value it returned. This is not a function of the program;
  it is what the claims about the loop are measured against.
\<close>

fun invocations ::
  "('w, 'img) capabilities \<Rightarrow> path \<Rightarrow> path \<Rightarrow> int \<times> int \<Rightarrow> string list \<Rightarrow> 'w state
   \<Rightarrow> (path \<times> bool) list"
where
  "invocations os input_folder output_folder size' [] st = []"
| "invocations os input_folder output_folder size' (jpg_file # rest) st =
     (case process_image os (join input_folder jpg_file) output_folder size' st of
        (Raised e, st') \<Rightarrow> []
      | (Returned ok, st') \<Rightarrow>
          (join input_folder jpg_file, ok) #
          invocations os input_folder output_folder size' rest st')"

section \<open>A simulated environment\<close>

text \<open>
  One implementation of the capabilities, small enough to run: a file system that is a
  list of directories with their entries, the decodable image files with their sizes,
  and the paths that cannot be written. An image is its size and whether its data is
  truncated (decoding is lazy, so a truncated file opens and fails when it is cropped).
  The theorems below hold for every implementation; this one gives concrete runs.
\<close>

datatype sim_image = SimImage (sim_size: "int \<times> int") (sim_truncated: bool)

record sim_world =
  sim_dirs :: "(path \<times> string list) list"
  sim_images :: "(path \<times> sim_image) list"
  sim_protected :: "path list"

definition sim_exists :: "sim_world \<Rightarrow> path \<Rightarrow> bool" where
  "sim_exists w p =
     list_ex (\<lambda>(d, es). p = d \<or> list_ex (\<lambda>n. join d n = p) es) (sim_dirs w)"

definition add_entry :: "path \<Rightarrow> (path \<times> string list) list \<Rightarrow> (path \<times> string list) list" where
  "add_entry p dirs =
     map (\<lambda>(d, es). if join d (basename p) = p \<and> basename p \<notin> set es
                      then (d, es @ [basename p]) else (d, es)) dirs"

definition sim_makedirs :: "sim_world \<Rightarrow> path \<Rightarrow> exn option \<times> sim_world" where
  "sim_makedirs w p =
     (if p \<in> set (sim_protected w)
      then (Some (Exn (''[Errno 13] Permission denied: '' @ p)), w)
      else (None, w\<lparr>sim_dirs := add_entry p (sim_dirs w) @ [(p, [])]\<rparr>))"

definition sim_listdir :: "sim_world \<Rightarrow> path \<Rightarrow> exn + string list" where
  "sim_listdir w p =
     (case map_of (sim_dirs w) p of
        None \<Rightarrow> Inl (Exn (''[Errno 2] No such file or directory: '' @ p))
      | Some es \<Rightarrow> Inr es)"

definition sim_open :: "sim_world \<Rightarrow> path \<Rightarrow> exn + sim_image" where
  "sim_open w p =
     (case map_of (sim_images w) p of
        None \<Rightarrow> Inl (Exn (''cannot identify image file '' @ p))
      | Some img \<Rightarrow> Inr img)"

definition sim_crop :: "sim_image \<Rightarrow> box \<Rightarrow> exn + sim_image" where
  "sim_crop img b =
     (case b of (left, top', right, bottom) \<Rightarrow>
        if sim_truncated img then Inl (Exn ''image file is truncated'')
        else Inr (SimImage (right - left, bottom - top') False))"

definition sim_resize :: "sim_image \<Rightarrow> int \<times> int \<Rightarrow> exn + sim_image" where
  "sim_resize img size' =
     (if fst size' \<le> 0 \<or> snd size' \<le> 0 then Inl (Exn ''height and width must be > 0'')
      else Inr (SimImage size' False))"

definition sim_save :: "sim_world \<Rightarrow> sim_image \<Rightarrow> path \<Rightarrow> exn option \<times> sim_world" where
  "sim_save w img p =
     (if p \<in> set (sim_protected w)
      then (Some (Exn (''[Errno 13] Permission denied: '' @ p)), w)
      else (None, w\<lparr>sim_dirs := add_entry p (sim_dirs w),
                     sim_images := (p, img) # sim_images w\<rparr>))"

definition sim_os :: "(sim_world, sim_image) capabilities" where
  "sim_os =
     \<lparr>path_exists = sim_exists,
      makedirs = sim_makedirs,
      listdir = sim_listdir,
      image_open = sim_open,
      image_size = sim_size,
      image_crop = sim_crop,
      image_resize = sim_resize,
      image_save = sim_save\<rparr>"

text \<open>
  A folder \<^verbatim>\<open>in\<close> with three good JPEG files, a corrupt \<^verbatim>\<open>bad.jpg\<close>, a truncated
  \<^verbatim>\<open>cut.jpg\<close> and a text file; and a folder \<^verbatim>\<open>docs\<close> with no JPEG file at all. The
  folder \<^verbatim>\<open>locked\<close> cannot be created and \<^verbatim>\<open>done\<close> exists already.
\<close>

definition photos :: sim_world where
  "photos =
     \<lparr>sim_dirs = [(''in'', [''a.jpg'', ''notes.txt'', ''b.JPEG'', ''bad.jpg'', ''c.jpeg'']),
                  (''docs'', [''notes.txt'', ''scan.Jpg'']),
                  (''cuts'', [''cut.jpg'']),
                  (''done'', [])],
      sim_images = [(''in/a.jpg'', SimImage (800, 600) False),
                    (''in/b.JPEG'', SimImage (600, 801) False),
                    (''in/c.jpeg'', SimImage (500, 500) False),
                    (''cuts/cut.jpg'', SimImage (640, 480) True)],
      sim_protected = [''locked'', ''done/a.png'']\<rparr>"

definition start :: "sim_world state" where
  "start = \<lparr>world = photos, stdout = []\<rparr>"

section \<open>Properties of the crop box\<close>

text \<open>
  Claim C2. For an image of positive width and height the crop box is
  \<open>((width - height) div 2, 0, left + height, height)\<close> when \<open>width > height\<close> and
  \<open>(0, (height - width) div 2, width, top + width)\<close> otherwise. Its two sides both
  measure \<open>min width height\<close>. It is centered on the longer axis: the margin after the
  box exceeds the margin before it by the parity of the difference of the two
  dimensions, so an odd difference puts the box one pixel nearer to index 0; on the
  shorter axis the box spans the whole image. For an 800 by 600 image the box is
  \<open>(100, 0, 700, 600)\<close>.
\<close>

theorem crop_box_formula:
  assumes "0 < width" and "0 < height"
  shows "(case crop_box width height of (left, top', right, bottom) \<Rightarrow>
           (if width > height
            then left = (width - height) div 2 \<and> top' = 0 \<and>
                 right = left + height \<and> bottom = height
            else left = 0 \<and> top' = (height - width) div 2 \<and>
                 right = width \<and> bottom = top' + width) \<and>
           right - left = min width height \<and>
           bottom - top' = min width height \<and>
           (width - right) - left = (if width > height then (width - height) mod 2 else 0) \<and>
           (height - bottom) - top' = (if width > height then 0 else (height - width) mod 2)) \<and>
         crop_box 800 600 = (100, 0, 700, 600)"
proof -
  have example: "crop_box 800 600 = (100, 0, 700, 600)"
    by (simp add: crop_box_def)
  show ?thesis
  proof (cases "width > height")
    case True
    have "(width - height) - 2 * ((width - height) div 2) = (width - height) mod 2"
      by (simp add: minus_mult_div_eq_mod mult.commute)
    with True example show ?thesis
      by (simp add: crop_box_def Let_def)
  next
    case False
    have "(height - width) - 2 * ((height - width) div 2) = (height - width) mod 2"
      by (simp add: minus_mult_div_eq_mod mult.commute)
    with False example show ?thesis
      by (simp add: crop_box_def Let_def)
  qed
qed

theorem crop_box_formula_witness:
  "(0::int) < 801 \<and> (0::int) < 600 \<and> crop_box 801 600 = (100, 0, 700, 600) \<and>
   (0::int) < 3 \<and> (0::int) < 8 \<and> crop_box 3 8 = (0, 2, 3, 5)"
  using crop_box_formula [of 801 600] crop_box_formula [of 3 8]
  by (simp add: crop_box_def)

text \<open>
  Claim C3. For a square image (\<open>width = height\<close>, positive) the crop box is
  \<open>(0, 0, width, height)\<close>: nothing is cut off.
\<close>

theorem crop_box_square:
  assumes "0 < width" and "width = height"
  shows "crop_box width height = (0, 0, width, height)"
  using assms by (simp add: crop_box_def)

theorem crop_box_square_witness:
  "(0::int) < 640 \<and> (640::int) = 640 \<and> crop_box 640 640 = (0, 0, 640, 640)"
  using crop_box_square [of 640 640] by simp

text \<open>
  Claim C10. For an image of positive width and height the crop box lies inside the
  image: \<open>0 \<le> left \<le> right \<le> width\<close> and \<open>0 \<le> top \<le> bottom \<le> height\<close>.
\<close>

theorem crop_box_within_image:
  assumes "0 < width" and "0 < height"
  shows "(case crop_box width height of (left, top', right, bottom) \<Rightarrow>
           0 \<le> left \<and> left \<le> right \<and> right \<le> width \<and>
           0 \<le> top' \<and> top' \<le> bottom \<and> bottom \<le> height)"
proof (cases "width > height")
  case True
  then have "0 \<le> (width - height) div 2" and "(width - height) div 2 \<le> width - height"
    by simp_all
  with True assms show ?thesis
    by (simp add: crop_box_def Let_def)
next
  case False
  then have "0 \<le> (height - width) div 2" and "(height - width) div 2 \<le> height - width"
    by simp_all
  with False assms show ?thesis
    by (simp add: crop_box_def Let_def)
qed

theorem crop_box_within_image_witness:
  "(0::int) < 1025 \<and> (0::int) < 768 \<and>
   (case crop_box 1025 768 of (left, top', right, bottom) \<Rightarrow>
      0 \<le> left \<and> left \<le> right \<and> right \<le> 1025 \<and>
      0 \<le> top' \<and> top' \<le> bottom \<and> bottom \<le> 768) \<and>
   crop_box 1025 768 = (128, 0, 896, 768)"
  using crop_box_within_image [of 1025 768]
  by (simp add: crop_box_def)

end
